theory Spec2Isabelle
  imports Complex_Main "HOL-Library.Word"
begin

section \<open>Utils (src/js/utils.js)\<close>

text \<open>
  Strings are \<open>char list\<close>. \<open>String.prototype.toLowerCase\<close> is modelled on the
  ASCII letters, the only characters that occur in the extension tables below; every other
  character is left as it is.
\<close>

definition toLowerCase_char :: "char \<Rightarrow> char" where
  "toLowerCase_char c =
     (let n = (of_char c :: nat) in if 65 \<le> n \<and> n \<le> 90 then char_of (n + 32) else c)"

definition toLowerCase :: "string \<Rightarrow> string" where
  "toLowerCase s = map toLowerCase_char s"

text \<open>
  \<open>s.split(sep)\<close> for a one-character separator: the pieces between the separators, in
  order; the empty string splits into one empty piece, so the result is never empty.
\<close>

fun split :: "char \<Rightarrow> string \<Rightarrow> string list" where
  "split sep [] = [[]]"
| "split sep (c # cs) =
     (if c = sep then [] # split sep cs
      else (case split sep cs of
              [] \<Rightarrow> [[c]]
            | w # ws \<Rightarrow> (c # w) # ws))"

text \<open>\<open>Array.prototype.pop\<close> read as a value: the last element, \<open>undefined\<close> on \<open>[]\<close>.\<close>

definition pop :: "'a list \<Rightarrow> 'a option" where
  "pop xs = (if xs = [] then None else Some (last xs))"

text \<open>\<open>xs.includes(v)\<close> where \<open>v\<close> may be \<open>undefined\<close>.\<close>

definition includes_list :: "string list \<Rightarrow> string option \<Rightarrow> bool" where
  "includes_list xs v = (case v of None \<Rightarrow> False | Some e \<Rightarrow> e \<in> set xs)"

definition imageExtensions :: "string list" where
  "imageExtensions = [''jpg'', ''jpeg'', ''png'', ''gif'', ''webp'', ''bmp'', ''svg'']"

definition videoExtensions :: "string list" where
  "videoExtensions = [''mp4'', ''webm'', ''ogg'', ''mov'', ''avi'', ''mkv'']"

definition pdfExtensions :: "string list" where
  "pdfExtensions = [''pdf'']"

text \<open>The \<open>extension\<close> local of \<open>Utils.getMediaType\<close>.\<close>

definition extension :: "string \<Rightarrow> string option" where
  "extension fileName = pop (split CHR ''.'' (toLowerCase fileName))"

definition getMediaType :: "string \<Rightarrow> string" where
  "getMediaType fileName =
     (if includes_list pdfExtensions (extension fileName) then ''pdf''
      else if includes_list imageExtensions (extension fileName) then ''image''
      else if includes_list videoExtensions (extension fileName) then ''video''
      else ''pdf'')"

section \<open>Raw files handed to the import entry point\<close>

type_synonym byte = "8 word"

record raw_file =
  name_f :: string
  type_f :: string
  size_f :: nat
  content_f :: "byte list"

text \<open>\<open>PinkReaderApp.isValidFile\<close> (src/js/app.js).\<close>

definition isValidFile :: "raw_file \<Rightarrow> bool" where
  "isValidFile file =
     (let mediaType = getMediaType (name_f file)
      in includes_list [''pdf'', ''image'', ''video''] (Some mediaType))"

section \<open>MediaManager (src/js/app.js): data model\<close>

record media_file =
  id_m :: string
  fileName :: string
  displayName :: string
  mediaType :: string
  fileSize :: nat
  importDate :: string
  thumbnailDataUrl :: string
  pageCount :: "int option"
  lastViewedPage :: int
  lastViewedTime :: real
  videoDuration :: "real option"

text \<open>A record of the \<open>fileData\<close> object store, and the \<open>Blob\<close> built from it.\<close>

record file_data =
  id_d :: string
  data_d :: "byte list"
  type_d :: string
  name_d :: string

record blob =
  blob_parts :: "byte list"
  blob_type :: string

datatype error =
    TypeError
  | InvalidStateError
  | RequestError string
  | FileReaderError string
  | ThumbnailError string
  | FileDataNotFound

text \<open>
  The IndexedDB connection \<open>this.db\<close>: the two object stores the manager reads and
  writes, keyed by \<open>id\<close>, and whether the connection has been closed (by \<open>dispose()\<close>
  or by the browser).
\<close>

record idb =
  closed :: bool
  files_store :: "string \<rightharpoonup> media_file"
  fileData_store :: "string \<rightharpoonup> file_data"

datatype payload =
    Files "media_file list"
  | CurrentFile "media_file option"
  | Settings bool bool

subsection \<open>The listener registry\<close>

text \<open>
  \<open>this.eventListeners\<close> is a plain object whose own properties are event names bound to
  arrays of callbacks. Function objects and arrays have an identity, a number here:
  \<open>eventListeners\<close> gives the array of an own property, \<open>arrays\<close> the content of each
  array (so that \<open>push\<close> and \<open>splice\<close> change the array a running \<open>forEach\<close> is
  iterating), \<open>nextArray\<close> the identity of the next array literal. \<open>world\<close> is the rest
  of the page (viewers, DOM).
\<close>

record 'w registry =
  eventListeners :: "string \<rightharpoonup> nat"
  arrays :: "nat \<Rightarrow> nat list"
  nextArray :: nat
  world :: 'w

text \<open>
  A call of a function returns or throws, and leaves a state behind in both cases.
\<close>

datatype 'a outcome = Returned 'a | Threw string 'a


text \<open>
  A callback is a function of the page, which may subscribe and unsubscribe listeners and
  act on the page, or it is the debounced save that \<open>setupAutoSave\<close> creates, whose timer
  is local to its closure. No callback of the repository writes the file list, the current
  file or the stores synchronously, so a callback has no access to them here.
\<close>

datatype 'w callback =
    Callback "payload \<Rightarrow> 'w registry \<Rightarrow> 'w registry outcome"
  | DebouncedSave

text \<open>
  The names that every plain object inherits from \<open>Object.prototype\<close>. For such a name
  with no own property, \<open>this.eventListeners[event]\<close> is the inherited function or
  object: truthy, and without \<open>push\<close>, \<open>indexOf\<close> or \<open>forEach\<close>.
\<close>

definition Object_prototype_names :: "string list" where
  "Object_prototype_names =
     [''constructor'', ''hasOwnProperty'', ''isPrototypeOf'', ''propertyIsEnumerable'',
      ''toLocaleString'', ''toString'', ''valueOf'', ''__proto__'', ''__defineGetter__'',
      ''__defineSetter__'', ''__lookupGetter__'', ''__lookupSetter__'']"

definition inherited :: "'w registry \<Rightarrow> string \<Rightarrow> bool" where
  "inherited r event =
     (eventListeners r event = None \<and> event \<in> set Object_prototype_names)"

text \<open>
  \<open>on\<close> and \<open>off\<close> on the registry, as a callback reaches them. \<open>push_listener\<close> and
  \<open>splice_listener\<close> are their bodies for a name whose lookup is an own array or
  \<open>undefined\<close>; on an inherited name the method call on the looked-up value throws a
  TypeError. \<open>remove1\<close> is \<open>indexOf\<close> followed by \<open>splice(index, 1)\<close>.
\<close>

definition push_listener :: "string \<Rightarrow> nat \<Rightarrow> 'w registry \<Rightarrow> 'w registry" where
  "push_listener event cb r =
     (case eventListeners r event of
        Some a \<Rightarrow> r\<lparr>arrays := (arrays r)(a := arrays r a @ [cb])\<rparr>
      | None \<Rightarrow>
          (let a = nextArray r
           in r\<lparr>eventListeners := (eventListeners r)(event \<mapsto> a),
                arrays := (arrays r)(a := [cb]),
                nextArray := a + 1\<rparr>))"

definition on_registry :: "string \<Rightarrow> nat \<Rightarrow> 'w registry \<Rightarrow> error + 'w registry" where
  "on_registry event cb r =
     (if inherited r event then Inl TypeError else Inr (push_listener event cb r))"

definition splice_listener :: "string \<Rightarrow> nat \<Rightarrow> 'w registry \<Rightarrow> 'w registry" where
  "splice_listener event cb r =
     (case eventListeners r event of
        Some a \<Rightarrow> r\<lparr>arrays := (arrays r)(a := remove1 cb (arrays r a))\<rparr>
      | None \<Rightarrow> r)"

definition off_registry :: "string \<Rightarrow> nat \<Rightarrow> 'w registry \<Rightarrow> error + 'w registry" where
  "off_registry event cb r =
     (if inherited r event then Inl TypeError else Inr (splice_listener event cb r))"

subsection \<open>The manager\<close>

text \<open>
  \<open>bodies\<close> gives the body of each function object of the page. \<open>debouncedSave\<close>
  is \<open>this.debouncedSave\<close> (undefined until \<open>setupAutoSave\<close> has run) and
  \<open>saveTimer\<close> tells whether its timeout is pending. \<open>emitted\<close> and \<open>invoked\<close> are
  history fields: the calls of \<open>emit\<close> and the calls of callbacks made by \<open>emit\<close>,
  oldest first. \<open>console\<close> holds the messages of \<open>console.error\<close>, \<open>toasts\<close> the type
  argument of each \<open>Utils.showToast\<close>.
\<close>

record 'w media_manager =
  files :: "media_file list"
  currentFile :: "media_file option"
  forceUpdateTrigger :: string
  db :: "idb option"
  registry :: "'w registry"
  bodies :: "nat \<rightharpoonup> 'w callback"
  debouncedSave :: "nat option"
  saveTimer :: bool
  emitted :: "(string \<times> payload) list"
  invoked :: "(nat \<times> payload) list"
  console :: "string list"
  toasts :: "string list"

definition console_error :: "string \<Rightarrow> 'w media_manager \<Rightarrow> 'w media_manager" where
  "console_error msg m = m\<lparr>console := console m @ [msg]\<rparr>"

definition showToast :: "string \<Rightarrow> 'w media_manager \<Rightarrow> 'w media_manager" where
  "showToast ty m = m\<lparr>toasts := toasts m @ [ty]\<rparr>"

subsection \<open>Event listener management\<close>

definition on :: "string \<Rightarrow> nat \<Rightarrow> 'w media_manager \<Rightarrow> error + 'w media_manager" where
  "on event cb m =
     (case on_registry event cb (registry m) of
        Inl e \<Rightarrow> Inl e
      | Inr r \<Rightarrow> Inr (m\<lparr>registry := r\<rparr>))"

definition off :: "string \<Rightarrow> nat \<Rightarrow> 'w media_manager \<Rightarrow> error + 'w media_manager" where
  "off event cb m =
     (case off_registry event cb (registry m) of
        Inl e \<Rightarrow> Inl e
      | Inr r \<Rightarrow> Inr (m\<lparr>registry := r\<rparr>))"

text \<open>
  The body of the \<open>forEach\<close> in \<open>emit\<close>: one callback called inside \<open>try\<close>; the
  \<open>catch\<close> logs and goes on. An element that is no function makes the call itself throw,
  inside the \<open>try\<close>. The debounced save restarts its timer.
\<close>

definition call_listener ::
  "payload \<Rightarrow> 'w media_manager \<Rightarrow> nat \<Rightarrow> 'w media_manager" where
  "call_listener d m cb =
     (let m1 = m\<lparr>invoked := invoked m @ [(cb, d)]\<rparr>
      in case bodies m1 cb of
           None \<Rightarrow> console_error ''Error in event listener:'' m1
         | Some DebouncedSave \<Rightarrow> m1\<lparr>saveTimer := True\<rparr>
         | Some (Callback f) \<Rightarrow>
             (case f d (registry m1) of
                Returned r \<Rightarrow> m1\<lparr>registry := r\<rparr>
              | Threw e r \<Rightarrow> console_error ''Error in event listener:'' (m1\<lparr>registry := r\<rparr>)))"

text \<open>
  \<open>Array.prototype.forEach\<close> on the array \<open>a\<close>: the length is read once, before the
  first call; then for each index \<open>k\<close> below it, in order, the element is read from the
  array as it is at that moment and the callback is called, and an index the array no
  longer has is skipped. \<open>forEach a k n\<close> is the iteration from index \<open>k\<close> with
  \<open>n\<close> indices to go.
\<close>

fun forEach :: "nat \<Rightarrow> nat \<Rightarrow> nat \<Rightarrow> payload \<Rightarrow> 'w media_manager \<Rightarrow> 'w media_manager" where
  "forEach a k 0 d m = m"
| "forEach a k (Suc n) d m =
     forEach a (Suc k) n d
       (if k < length (arrays (registry m) a)
        then call_listener d m (arrays (registry m) a ! k)
        else m)"

text \<open>
  \<open>emit\<close>. \<open>dispatch\<close> is its body for an event name whose lookup is an own array or
  \<open>undefined\<close>; for an inherited name the test \<open>if (this.eventListeners[event])\<close>
  passes and \<open>.forEach\<close>, which the looked-up value does not have, throws a TypeError
  outside the \<open>try\<close>.
\<close>

definition dispatch :: "string \<Rightarrow> payload \<Rightarrow> 'w media_manager \<Rightarrow> 'w media_manager" where
  "dispatch event d m =
     (let m0 = m\<lparr>emitted := emitted m @ [(event, d)]\<rparr>
      in case eventListeners (registry m0) event of
           None \<Rightarrow> m0
         | Some a \<Rightarrow> forEach a 0 (length (arrays (registry m0) a)) d m0)"


subsection \<open>Current file\<close>

text \<open>
  \<open>uuid\<close> is the value \<open>Utils.generateUUID()\<close> returns in this call. The test
  \<open>this.currentFile !== file\<close> compares references; whenever it matters (\<open>file\<close> is
  \<open>null\<close>) it is the test \<open>this.currentFile !== null\<close>. The event name
  \<open>currentFileChanged\<close> is not an inherited one, so \<open>this.emit\<close> is \<open>dispatch\<close>
  here, as it is for \<open>filesChanged\<close> below.
\<close>

definition setCurrentFile ::
  "media_file option \<Rightarrow> string \<Rightarrow> 'w media_manager \<Rightarrow> 'w media_manager" where
  "setCurrentFile file uuid m =
     (if currentFile m \<noteq> file \<or> file \<noteq> None
      then dispatch ''currentFileChanged'' (CurrentFile file)
             (m\<lparr>currentFile := file, forceUpdateTrigger := uuid\<rparr>)
      else m)"

subsection \<open>Content storage\<close>

text \<open>
  \<open>this.db.transaction(...)\<close>: throws a TypeError when \<open>this.db\<close> is \<open>null\<close> and an
  InvalidStateError when the connection is closed.
\<close>

definition transaction :: "'w media_manager \<Rightarrow> error + idb" where
  "transaction m =
     (case db m of
        None \<Rightarrow> Inl TypeError
      | Some d \<Rightarrow> if closed d then Inl InvalidStateError else Inr d)"

text \<open>
  What becomes of a \<open>put\<close>: the request succeeds and its transaction commits; the
  request fires \<open>onerror\<close>; or the request succeeds and the transaction aborts when it
  commits, which undoes the write. The manager listens to requests only, never to a
  transaction, so the last case looks like the first to it.
\<close>

datatype put_outcome = Committed | RequestFails error | AbortsAtCommit

text \<open>
  \<open>readError\<close>: the FileReader of \<open>Utils.fileToArrayBuffer\<close> fails with that error;
  otherwise it yields the bytes of the file.
\<close>

definition storeFileData ::
  "error option \<Rightarrow> put_outcome \<Rightarrow> string \<Rightarrow> raw_file \<Rightarrow> 'w media_manager
   \<Rightarrow> error + 'w media_manager" where
  "storeFileData readError put fileId file m =
     (case readError of
        Some e \<Rightarrow> Inl e
      | None \<Rightarrow>
          (let arrayBuffer = content_f file
           in case transaction m of
                Inl e \<Rightarrow> Inl e
              | Inr d \<Rightarrow>
                  (case put of
                     RequestFails e \<Rightarrow> Inl e
                   | AbortsAtCommit \<Rightarrow> Inr m
                   | Committed \<Rightarrow>
                       Inr (m\<lparr>db := Some (d\<lparr>fileData_store := (fileData_store d)(fileId \<mapsto>
                              \<lparr>id_d = fileId, data_d = arrayBuffer, type_d = type_f file,
                               name_d = name_f file\<rparr>)\<rparr>)\<rparr>))))"

text \<open>
  \<open>getError\<close>: the \<open>get\<close> request fires \<open>onerror\<close> with that error. A \<open>File\<close>'s
  \<open>type\<close> is already in the normal form the \<open>Blob\<close> constructor produces, so the
  blob carries the stored type as it is.
\<close>

definition getFileData ::
  "error option \<Rightarrow> string \<Rightarrow> 'w media_manager \<Rightarrow> error + blob" where
  "getFileData getError fileId m =
     (case transaction m of
        Inl e \<Rightarrow> Inl e
      | Inr d \<Rightarrow>
          (case getError of
             Some e \<Rightarrow> Inl e
           | None \<Rightarrow>
               (case fileData_store d fileId of
                  Some result \<Rightarrow> Inr \<lparr>blob_parts = data_d result, blob_type = type_d result\<rparr>
                | None \<Rightarrow> Inl FileDataNotFound)))"

subsection \<open>Saving the metadata\<close>


text \<open>
  \<open>setupAutoSave\<close>: \<open>fn\<close> is the identity of the function \<open>Utils.debounce\<close> returns; it
  is kept in \<open>this.debouncedSave\<close> and subscribed to \<open>filesChanged\<close> (not an inherited
  name, so \<open>this.on\<close> is \<open>push_listener\<close>).
\<close>

definition setupAutoSave :: "nat \<Rightarrow> 'w media_manager \<Rightarrow> 'w media_manager" where
  "setupAutoSave fn m =
     m\<lparr>bodies := (bodies m)(fn \<mapsto> DebouncedSave),
       debouncedSave := Some fn,
       registry := push_listener ''filesChanged'' fn (registry m)\<rparr>"

text \<open>
  A direct call \<open>this.debouncedSave()\<close>: it restarts the timer; while
  \<open>this.debouncedSave\<close> is undefined the call throws inside an async function whose
  promise nobody awaits.
\<close>

definition call_debouncedSave :: "'w media_manager \<Rightarrow> 'w media_manager" where
  "call_debouncedSave m =
     (case debouncedSave m of None \<Rightarrow> m | Some fn \<Rightarrow> m\<lparr>saveTimer := True\<rparr>)"


subsection \<open>Adding a file\<close>

text \<open>
  What the world outside decides during one \<open>addFile\<close>: the two generated UUIDs, the
  clock, the result of \<open>Utils.createThumbnail\<close>, the outcomes of the file read and of the
  \<open>put\<close>, and the result of \<open>getPDFPageCount\<close> (\<open>null\<close> when it fails).
\<close>

record add_env =
  uuid_fileId :: string
  uuid_trigger :: string
  now :: string
  thumbnail :: "error + string"
  readError :: "error option"
  putOutcome :: put_outcome
  pdfPageCount :: "int option"

text \<open>The \<open>catch\<close> block of \<open>addFile\<close>: log, toast, rethrow.\<close>

definition addFile_catch ::
  "error \<Rightarrow> 'w media_manager \<Rightarrow> (error + media_file) \<times> 'w media_manager" where
  "addFile_catch e m = (Inl e, showToast ''error'' (console_error ''Failed to add file:'' m))"

definition addFile ::
  "add_env \<Rightarrow> raw_file \<Rightarrow> 'w media_manager \<Rightarrow> (error + media_file) \<times> 'w media_manager" where
  "addFile env file m =
     (let fileId = uuid_fileId env;
          mediaType' = getMediaType (name_f file);
          importDate' = now env
      in case thumbnail env of
           Inl e \<Rightarrow> addFile_catch e m
         | Inr thumbnailDataUrl' \<Rightarrow>
             (case storeFileData (readError env) (putOutcome env) fileId file m of
                Inl e \<Rightarrow> addFile_catch e m
              | Inr m1 \<Rightarrow>
                  (let mediaFile =
                         \<lparr>id_m = fileId,
                          fileName = name_f file,
                          displayName = name_f file,
                          mediaType = mediaType',
                          fileSize = size_f file,
                          importDate = importDate',
                          thumbnailDataUrl = thumbnailDataUrl',
                          pageCount = (if mediaType' = ''pdf'' then pdfPageCount env else None),
                          lastViewedPage = 1,
                          lastViewedTime = 0,
                          videoDuration = None\<rparr>;
                       m2 = m1\<lparr>files := files m1 @ [mediaFile]\<rparr>;
                       m3 = setCurrentFile (Some mediaFile) (uuid_trigger env) m2;
                       m4 = dispatch ''filesChanged'' (Files (files m3)) m3;
                       m5 = showToast ''success'' m4
                   in (Inr mediaFile, m5))))"

subsection \<open>Removing a file\<close>

text \<open>
  \<open>deleteError\<close>: the \<open>delete\<close> request fails or its transaction aborts (nobody listens
  to either) and the record stays. An exception of \<open>this.db.transaction\<close> leaves the
  \<open>try\<close> block after the list has been filtered.
\<close>

definition removeFile ::
  "string \<Rightarrow> error option \<Rightarrow> media_file \<Rightarrow> 'w media_manager \<Rightarrow> 'w media_manager" where
  "removeFile uuid deleteError file m =
     (let m1 = m\<lparr>files := filter (\<lambda>f. id_m f \<noteq> id_m file) (files m)\<rparr>
      in case transaction m1 of
           Inl e \<Rightarrow> showToast ''error'' (console_error ''Failed to remove file:'' m1)
         | Inr d \<Rightarrow>
             (let m2 = (case deleteError of
                          Some e \<Rightarrow> m1
                        | None \<Rightarrow>
                            m1\<lparr>db := Some (d\<lparr>fileData_store :=
                                   (fileData_store d)(id_m file := None)\<rparr>)\<rparr>);
                  m3 = (if (case currentFile m2 of
                              None \<Rightarrow> False
                            | Some c \<Rightarrow> id_m c = id_m file)
                        then setCurrentFile
                               (if length (files m2) > 0 then Some (files m2 ! 0) else None)
                               uuid m2
                        else m2);
                  m4 = dispatch ''filesChanged'' (Files (files m3)) m3
              in showToast ''success'' m4))"

text \<open>The library invariant: the current file is none or an element of the file list.\<close>

definition current_in_files :: "'w media_manager \<Rightarrow> bool" where
  "current_in_files m =
     (case currentFile m of None \<Rightarrow> True | Some c \<Rightarrow> c \<in> set (files m))"

subsection \<open>View progress updates\<close>

fun findIndex :: "('a \<Rightarrow> bool) \<Rightarrow> 'a list \<Rightarrow> int" where
  "findIndex P [] = - 1"
| "findIndex P (x # xs) =
     (if P x then 0
      else (let i = findIndex P xs in if i = - 1 then - 1 else i + 1))"

definition getFileById :: "string \<Rightarrow> 'w media_manager \<Rightarrow> media_file option" where
  "getFileById i m = find (\<lambda>file. id_m file = i) (files m)"

text \<open>
  The update operations write the list entry and, when it has the same id, the current
  file, then call \<open>this.debouncedSave()\<close>.
\<close>

definition updateLastViewedPage ::
  "media_file \<Rightarrow> int \<Rightarrow> 'w media_manager \<Rightarrow> 'w media_manager" where
  "updateLastViewedPage file page m =
     (let fileIndex = findIndex (\<lambda>f. id_m f = id_m file) (files m)
      in if fileIndex \<noteq> - 1
         then call_debouncedSave
                (m\<lparr>files := (files m)[nat fileIndex :=
                       (files m ! nat fileIndex)\<lparr>lastViewedPage := page\<rparr>],
                   currentFile :=
                     (case currentFile m of
                        None \<Rightarrow> None
                      | Some c \<Rightarrow>
                          if id_m c = id_m file then Some (c\<lparr>lastViewedPage := page\<rparr>)
                          else Some c)\<rparr>)
         else m)"

definition updateLastViewedTime ::
  "media_file \<Rightarrow> real \<Rightarrow> 'w media_manager \<Rightarrow> 'w media_manager" where
  "updateLastViewedTime file time m =
     (let fileIndex = findIndex (\<lambda>f. id_m f = id_m file) (files m)
      in if fileIndex \<noteq> - 1
         then call_debouncedSave
                (m\<lparr>files := (files m)[nat fileIndex :=
                       (files m ! nat fileIndex)\<lparr>lastViewedTime := time\<rparr>],
                   currentFile :=
                     (case currentFile m of
                        None \<Rightarrow> None
                      | Some c \<Rightarrow>
                          if id_m c = id_m file then Some (c\<lparr>lastViewedTime := time\<rparr>)
                          else Some c)\<rparr>)
         else m)"

section \<open>VideoPlayer (src/sw.js)\<close>

text \<open>
  The \<open>video\<close> element with its playback position, and the player's own fields:
  \<open>currentTime\<close> is the player's copy of the position, refreshed by \<open>timeupdate\<close>
  events and by slider input. Times are real numbers.
\<close>

record video_element =
  currentTime_e :: real

record video_player =
  videoElement :: "video_element option"
  currentFile_v :: "media_file option"
  currentTime :: real
  duration :: real
  isSeeking :: bool
  lastSavedPosition :: real

definition saveCurrentPosition ::
  "video_player \<times> 'w media_manager \<Rightarrow> video_player \<times> 'w media_manager" where
  "saveCurrentPosition s =
     (case s of (vp, m) \<Rightarrow>
        (case currentFile_v vp of
           None \<Rightarrow> (vp, m)
         | Some f \<Rightarrow>
             if \<bar>currentTime vp - lastSavedPosition vp\<bar> > 1
             then (vp\<lparr>lastSavedPosition := currentTime vp\<rparr>,
                   updateLastViewedTime f (currentTime vp) m)
             else (vp, m)))"

definition seek ::
  "real \<Rightarrow> video_player \<times> 'w media_manager \<Rightarrow> video_player \<times> 'w media_manager" where
  "seek time s =
     (case s of (vp, m) \<Rightarrow>
        (case videoElement vp of
           None \<Rightarrow> (vp, m)
         | Some el \<Rightarrow>
             if currentFile_v vp = None then (vp, m)
             else (let clampedTime = max 0 (min (duration vp) time)
                   in saveCurrentPosition
                        (vp\<lparr>videoElement := Some (el\<lparr>currentTime_e := clampedTime\<rparr>)\<rparr>, m))))"

definition rewind ::
  "video_player \<times> 'w media_manager \<Rightarrow> video_player \<times> 'w media_manager" where
  "rewind s = seek (currentTime (fst s) - 10) s"

definition forward ::
  "video_player \<times> 'w media_manager \<Rightarrow> video_player \<times> 'w media_manager" where
  "forward s = seek (currentTime (fst s) + 10) s"

text \<open>The slider handlers; \<open>v\<close> is \<open>parseFloat(e.target.value)\<close>.\<close>

definition onSliderInput :: "real \<Rightarrow> video_player \<Rightarrow> video_player" where
  "onSliderInput v vp =
     (if videoElement vp = None \<or> currentFile_v vp = None then vp
      else vp\<lparr>currentTime := (v / 100) * duration vp\<rparr>)"

definition onSliderChange ::
  "real \<Rightarrow> video_player \<times> 'w media_manager \<Rightarrow> video_player \<times> 'w media_manager" where
  "onSliderChange v s =
     (if videoElement (fst s) = None \<or> currentFile_v (fst s) = None then s
      else seek ((v / 100) * duration (fst s)) s)"

text \<open>The \<open>timeupdate\<close> event of the element, which the browser fires after the seek.\<close>

definition onTimeUpdate :: "video_player \<Rightarrow> video_player" where
  "onTimeUpdate vp =
     (case videoElement vp of
        None \<Rightarrow> vp
      | Some el \<Rightarrow> if \<not> isSeeking vp then vp\<lparr>currentTime := currentTime_e el\<rparr> else vp)"

section \<open>PDFViewer (src/unnamed/part_000)\<close>

text \<open>
  \<open>renderPage\<close> is an async function with two suspension points, \<open>getPage\<close> and the
  render task's promise. A call runs up to the first \<open>await\<close>; the activation then waits
  in \<open>suspended\<close>, with the page number it asked for (and the task it started), until the
  PDF engine settles the promise. Other events of the page run in between. Render tasks are
  numbered; \<open>cancelledTasks\<close> are those on which \<open>cancel()\<close> was called, whose promise
  rejects with a \<open>RenderingCancelledException\<close>. \<open>canvasPage\<close> is the page drawn by the
  last completed render, \<open>pageNumText\<close> the page number shown by \<open>updatePageInfo\<close>.
\<close>

record pdf_document =
  numPages :: int

datatype suspended = AwaitGetPage int | AwaitRender int nat

record pdf_viewer =
  pdfDocument :: "pdf_document option"
  currentPage :: int
  totalPages :: int
  isRendering :: bool
  renderTask :: "nat option"
  currentFile_p :: "media_file option"
  pageNumText :: int
  canvasPage :: "int option"
  suspended :: "suspended option"
  cancelledTasks :: "nat list"
  nextTaskId :: nat
  console_p :: "string list"

definition cancel :: "nat \<Rightarrow> pdf_viewer \<Rightarrow> pdf_viewer" where
  "cancel t v = v\<lparr>cancelledTasks := t # cancelledTasks v\<rparr>"

definition updatePageInfo :: "pdf_viewer \<Rightarrow> pdf_viewer" where
  "updatePageInfo v = v\<lparr>pageNumText := currentPage v\<rparr>"

text \<open>A call of \<open>renderPage\<close>, up to \<open>await this.pdfDocument.getPage(this.currentPage)\<close>.\<close>

definition renderPage :: "pdf_viewer \<Rightarrow> pdf_viewer" where
  "renderPage v =
     (if pdfDocument v = None \<or> isRendering v then v
      else (let v1 = v\<lparr>isRendering := True\<rparr>;
                v2 = (case renderTask v1 of Some t \<Rightarrow> cancel t v1 | None \<Rightarrow> v1)
            in v2\<lparr>suspended := Some (AwaitGetPage (currentPage v2))\<rparr>))"

text \<open>The \<open>catch\<close> and \<open>finally\<close> blocks of \<open>renderPage\<close> for an error named \<open>nm\<close>.\<close>

definition renderPage_catch :: "string \<Rightarrow> pdf_viewer \<Rightarrow> pdf_viewer" where
  "renderPage_catch nm v =
     (let v1 = (if nm \<noteq> ''RenderingCancelledException''
                then v\<lparr>console_p := console_p v @ [''Failed to render page:'']\<rparr>
                else v)
      in v1\<lparr>isRendering := False, suspended := None\<rparr>)"

text \<open>\<open>getPage\<close> resolves: the canvas is sized, the render task is started and awaited.\<close>

definition getPage_resolved :: "pdf_viewer \<Rightarrow> pdf_viewer" where
  "getPage_resolved v =
     (case suspended v of
        Some (AwaitGetPage p) \<Rightarrow>
          (let t = nextTaskId v
           in v\<lparr>renderTask := Some t, nextTaskId := t + 1, suspended := Some (AwaitRender p t)\<rparr>)
      | _ \<Rightarrow> v)"

definition getPage_rejected :: "string \<Rightarrow> pdf_viewer \<Rightarrow> pdf_viewer" where
  "getPage_rejected nm v =
     (case suspended v of
        Some (AwaitGetPage p) \<Rightarrow> renderPage_catch nm v
      | _ \<Rightarrow> v)"

text \<open>
  The render task settles. A cancelled task rejects; otherwise the page is on the canvas and
  the rest of the \<open>try\<close> block runs: \<open>this.renderTask = null\<close>, then
  \<open>updateLastViewedPage(this.currentFile, this.currentPage)\<close>.
\<close>

definition render_resolved ::
  "pdf_viewer \<times> 'w media_manager \<Rightarrow> pdf_viewer \<times> 'w media_manager" where
  "render_resolved s =
     (case s of (v, m) \<Rightarrow>
        (case suspended v of
           Some (AwaitRender p t) \<Rightarrow>
             if t \<in> set (cancelledTasks v)
             then (renderPage_catch ''RenderingCancelledException'' v, m)
             else (let v1 = v\<lparr>canvasPage := Some p, renderTask := None\<rparr>;
                       m1 = (case currentFile_p v1 of
                               Some f \<Rightarrow> updateLastViewedPage f (currentPage v1) m
                             | None \<Rightarrow> m)
                   in (v1\<lparr>isRendering := False, suspended := None\<rparr>, m1))
         | _ \<Rightarrow> (v, m)))"

definition render_rejected :: "string \<Rightarrow> pdf_viewer \<Rightarrow> pdf_viewer" where
  "render_rejected nm v =
     (case suspended v of
        Some (AwaitRender p t) \<Rightarrow> renderPage_catch nm v
      | _ \<Rightarrow> v)"

definition goToPage :: "int \<Rightarrow> pdf_viewer \<Rightarrow> pdf_viewer" where
  "goToPage pageNumber v =
     (if pdfDocument v = None then v
      else (let page = max 1 (min pageNumber (totalPages v))
            in if page = currentPage v then v
               else renderPage (updatePageInfo (v\<lparr>currentPage := page\<rparr>))))"

definition clearPDF :: "pdf_viewer \<Rightarrow> pdf_viewer" where
  "clearPDF v =
     (let v1 = (case renderTask v of
                  Some t \<Rightarrow> (cancel t v)\<lparr>renderTask := None\<rparr>
                | None \<Rightarrow> v)
      in updatePageInfo
           (v1\<lparr>pdfDocument := None, currentFile_p := None, currentPage := 1, totalPages := 1,
               canvasPage := None\<rparr>))"

text \<open>The events of the page that concern the viewer, and a run of them in order.\<close>

datatype pdf_event =
    GoToPage int
  | GetPageResolved
  | GetPageRejected string
  | RenderResolved
  | RenderRejected string
  | ClearPDF

fun pdf_step ::
  "pdf_viewer \<times> 'w media_manager \<Rightarrow> pdf_event \<Rightarrow> pdf_viewer \<times> 'w media_manager" where
  "pdf_step (v, m) (GoToPage n) = (goToPage n v, m)"
| "pdf_step (v, m) GetPageResolved = (getPage_resolved v, m)"
| "pdf_step (v, m) (GetPageRejected nm) = (getPage_rejected nm v, m)"
| "pdf_step (v, m) RenderResolved = render_resolved (v, m)"
| "pdf_step (v, m) (RenderRejected nm) = (render_rejected nm v, m)"
| "pdf_step (v, m) ClearPDF = (clearPDF v, m)"

definition pdf_run ::
  "pdf_event list \<Rightarrow> pdf_viewer \<times> 'w media_manager \<Rightarrow> pdf_viewer \<times> 'w media_manager" where
  "pdf_run events s = foldl pdf_step s events"

subsection \<open>Construction and disposal\<close>

text \<open>
  The constructor, with \<open>uuid\<close> the generated \<open>forceUpdateTrigger\<close>: the registry
  object literal has the three event names, each with an empty array of its own (the
  arrays 10, 11 and 12).
\<close>

definition new_MediaManager :: "string \<Rightarrow> 'w \<Rightarrow> 'w media_manager" where
  "new_MediaManager uuid w =
     \<lparr>files = [],
      currentFile = None,
      forceUpdateTrigger = uuid,
      db = None,
      registry =
        \<lparr>eventListeners =
           [''filesChanged'' \<mapsto> 10, ''currentFileChanged'' \<mapsto> 11, ''settingsChanged'' \<mapsto> 12],
         arrays = (\<lambda>a. []),
         nextArray = 13,
         world = w\<rparr>,
      bodies = Map.empty,
      debouncedSave = None,
      saveTimer = False,
      emitted = [],
      invoked = [],
      console = [],
      toasts = []\<rparr>"

text \<open>\<open>initDB\<close> when the open request succeeds with the connection \<open>d\<close>.\<close>

definition initDB :: "idb \<Rightarrow> 'w media_manager \<Rightarrow> 'w media_manager" where
  "initDB d m = m\<lparr>db := Some d\<rparr>"

text \<open>\<open>dispose\<close> replaces the registry object by an empty one and closes the connection.\<close>

definition dispose :: "'w media_manager \<Rightarrow> 'w media_manager" where
  "dispose m =
     m\<lparr>registry := (registry m)\<lparr>eventListeners := Map.empty\<rparr>,
       db := (case db m of None \<Rightarrow> None | Some d \<Rightarrow> Some (d\<lparr>closed := True\<rparr>))\<rparr>"

subsection \<open>A small library used in the examples\<close>

definition empty_idb :: idb where
  "empty_idb = \<lparr>closed = False, files_store = Map.empty, fileData_store = Map.empty\<rparr>"




text \<open>
  The manager after a successful \<open>init\<close>: connection open, auto-save set up with the
  debounced save as function 20.
\<close>

definition example_manager :: "nat media_manager" where
  "example_manager = setupAutoSave 20 (initDB empty_idb (new_MediaManager ''uuid-0'' 0))"

definition example_raw_file :: raw_file where
  "example_raw_file =
     \<lparr>name_f = ''a.pdf'', type_f = ''application/pdf'', size_f = 4,
      content_f = [37, 80, 68, 70]\<rparr>"

definition example_env :: add_env where
  "example_env =
     \<lparr>uuid_fileId = ''uuid-1'', uuid_trigger = ''uuid-2'', now = ''2024-01-01T00:00:00.000Z'',
      thumbnail = Inr ''data:image/jpeg;base64,AA=='', readError = None,
      putOutcome = Committed, pdfPageCount = Some 3\<rparr>"

definition example_media_file :: media_file where
  "example_media_file =
     \<lparr>id_m = ''uuid-1'', fileName = ''a.pdf'', displayName = ''a.pdf'', mediaType = ''pdf'',
      fileSize = 4, importDate = ''2024-01-01T00:00:00.000Z'',
      thumbnailDataUrl = ''data:image/jpeg;base64,AA=='', pageCount = Some 3,
      lastViewedPage = 1, lastViewedTime = 0, videoDuration = None\<rparr>"

text \<open>The library after importing the example file into the fresh manager.\<close>

definition example_library :: "nat media_manager" where
  "example_library = snd (addFile example_env example_raw_file example_manager)"



text \<open>The pdf viewer showing page 1 of the three pages of the example file.\<close>

definition example_viewer :: pdf_viewer where
  "example_viewer =
     \<lparr>pdfDocument = Some \<lparr>numPages = 3\<rparr>, currentPage = 1, totalPages = 3,
      isRendering = False, renderTask = None, currentFile_p = Some example_media_file,
      pageNumText = 1, canvasPage = Some 1, suspended = None, cancelledTasks = [],
      nextTaskId = 1, console_p = []\<rparr>"

text \<open>
  A library holding one video of 120 seconds, and a player 30 seconds into it whose
  auto-save last ran at 25 seconds.
\<close>

definition example_video_file :: media_file where
  "example_video_file =
     \<lparr>id_m = ''uuid-v'', fileName = ''c.mp4'', displayName = ''c.mp4'', mediaType = ''video'',
      fileSize = 1000, importDate = ''2024-01-01T00:00:00.000Z'',
      thumbnailDataUrl = ''data:image/jpeg;base64,AA=='', pageCount = None,
      lastViewedPage = 1, lastViewedTime = 25, videoDuration = Some 120\<rparr>"

definition example_video_library :: "nat media_manager" where
  "example_video_library =
     example_manager\<lparr>files := [example_video_file], currentFile := Some example_video_file\<rparr>"

definition example_player :: video_player where
  "example_player =
     \<lparr>videoElement = Some \<lparr>currentTime_e = 30\<rparr>, currentFile_v = Some example_video_file,
      currentTime = 30, duration = 120, isSeeking = False, lastSavedPosition = 25\<rparr>"

section \<open>Media type derivation\<close>

lemma split_not_Nil: "split sep s \<noteq> []"
  by (induction s) (auto split: list.splits)

lemma extension_defined: "\<exists>e. extension nm = Some e"
  by (simp add: extension_def pop_def split_not_Nil)

lemma getMediaType_cases:
  "getMediaType nm = ''pdf'' \<or> getMediaType nm = ''image''
   \<or> getMediaType nm = ''video''"
  by (simp add: getMediaType_def)

lemma getMediaType_pdf_example: "getMediaType ''a.pdf'' = ''pdf''"
  by (simp add: getMediaType_def extension_def pop_def toLowerCase_def toLowerCase_char_def
      includes_list_def pdfExtensions_def imageExtensions_def videoExtensions_def)

lemma getMediaType_image_example: "getMediaType ''b.PNG'' = ''image''"
  by code_simp

lemma getMediaType_video_example: "getMediaType ''c.mp4'' = ''video''"
  by (simp add: getMediaType_def extension_def pop_def toLowerCase_def toLowerCase_char_def
      includes_list_def pdfExtensions_def imageExtensions_def videoExtensions_def)

lemma range_getMediaType: "range getMediaType = {''pdf'', ''image'', ''video''}"
proof
  show "range getMediaType \<subseteq> {''pdf'', ''image'', ''video''}"
    using getMediaType_cases by auto
next
  have "''pdf'' \<in> range getMediaType"
    using getMediaType_pdf_example by (metis rangeI)
  moreover have "''image'' \<in> range getMediaType"
    using getMediaType_image_example by (metis rangeI)
  moreover have "''video'' \<in> range getMediaType"
    using getMediaType_video_example by (metis rangeI)
  ultimately show "{''pdf'', ''image'', ''video''} \<subseteq> range getMediaType"
    by simp
qed

text \<open>
  C9. A file name whose extension is in none of the three extension tables has media type
  pdf; \<open>getMediaType\<close> maps the file names onto \<open>{pdf, image, video}\<close>; and
  \<open>isValidFile\<close> accepts every file, whatever its name.
\<close>

theorem getMediaType_unrecognized_is_pdf:
  "(\<not> includes_list pdfExtensions (extension nm)
     \<and> \<not> includes_list imageExtensions (extension nm)
     \<and> \<not> includes_list videoExtensions (extension nm)
     \<longrightarrow> getMediaType nm = ''pdf'')
   \<and> range getMediaType = {''pdf'', ''image'', ''video''}
   \<and> isValidFile file"
proof -
  have valid: "isValidFile file"
    using getMediaType_cases [of "name_f file"]
    by (auto simp add: isValidFile_def includes_list_def)
  have fallback: "\<not> includes_list pdfExtensions (extension nm)
     \<and> \<not> includes_list imageExtensions (extension nm)
     \<and> \<not> includes_list videoExtensions (extension nm)
     \<longrightarrow> getMediaType nm = ''pdf''"
    by (simp add: getMediaType_def)
  from valid fallback range_getMediaType show ?thesis
    by blast
qed

theorem getMediaType_unrecognized_is_pdf_witness:
  "\<not> includes_list pdfExtensions (extension ''notes.txt'')
   \<and> \<not> includes_list imageExtensions (extension ''notes.txt'')
   \<and> \<not> includes_list videoExtensions (extension ''notes.txt'')
   \<and> getMediaType ''notes.txt'' = ''pdf''
   \<and> isValidFile \<lparr>name_f = ''notes.txt'', type_f = ''text/plain'', size_f = 2,
        content_f = [104, 105]\<rparr>"
  using getMediaType_unrecognized_is_pdf [of "''notes.txt''"
      "\<lparr>name_f = ''notes.txt'', type_f = ''text/plain'', size_f = 2, content_f = [104, 105]\<rparr>"]
  by (simp add: extension_def pop_def toLowerCase_def toLowerCase_char_def
      includes_list_def pdfExtensions_def imageExtensions_def videoExtensions_def)

section \<open>MediaManager: events\<close>

lemma call_listener_fields [simp]:
  "files (call_listener d m cb) = files m"
  "currentFile (call_listener d m cb) = currentFile m"
  "forceUpdateTrigger (call_listener d m cb) = forceUpdateTrigger m"
  "db (call_listener d m cb) = db m"
  "bodies (call_listener d m cb) = bodies m"
  "debouncedSave (call_listener d m cb) = debouncedSave m"
  "emitted (call_listener d m cb) = emitted m"
  "toasts (call_listener d m cb) = toasts m"
  "invoked (call_listener d m cb) = invoked m @ [(cb, d)]"
  by (simp_all add: call_listener_def console_error_def Let_def
      split: option.split callback.split outcome.split)


lemma call_listener_saveTimer:
  "saveTimer m \<Longrightarrow> saveTimer (call_listener d m cb)"
  "bodies m cb = Some DebouncedSave \<Longrightarrow> saveTimer (call_listener d m cb)"
  by (simp_all add: call_listener_def console_error_def Let_def
      split: option.split callback.split outcome.split)

lemma forEach_fields [simp]:
  "files (forEach a k n d m) = files m"
  "currentFile (forEach a k n d m) = currentFile m"
  "forceUpdateTrigger (forEach a k n d m) = forceUpdateTrigger m"
  "db (forEach a k n d m) = db m"
  "bodies (forEach a k n d m) = bodies m"
  "debouncedSave (forEach a k n d m) = debouncedSave m"
  "emitted (forEach a k n d m) = emitted m"
  "toasts (forEach a k n d m) = toasts m"
  by (induction n arbitrary: k m; simp)+

lemma forEach_saveTimer_mono: "saveTimer m \<Longrightarrow> saveTimer (forEach a k n d m)"
  by (induction n arbitrary: k m) (simp_all add: call_listener_saveTimer)

lemma dispatch_fields [simp]:
  "files (dispatch event d m) = files m"
  "currentFile (dispatch event d m) = currentFile m"
  "forceUpdateTrigger (dispatch event d m) = forceUpdateTrigger m"
  "db (dispatch event d m) = db m"
  "bodies (dispatch event d m) = bodies m"
  "debouncedSave (dispatch event d m) = debouncedSave m"
  "emitted (dispatch event d m) = emitted m @ [(event, d)]"
  "toasts (dispatch event d m) = toasts m"
  by (simp_all add: dispatch_def Let_def split: option.split)

lemma dispatch_saveTimer_mono: "saveTimer m \<Longrightarrow> saveTimer (dispatch event d m)"
  by (simp add: dispatch_def Let_def forEach_saveTimer_mono split: option.split)


lemma on_own_names:
  "on_registry ''filesChanged'' cb r = Inr (push_listener ''filesChanged'' cb r)"
  "on_registry ''currentFileChanged'' cb r = Inr (push_listener ''currentFileChanged'' cb r)"
  by (simp_all add: on_registry_def inherited_def Object_prototype_names_def)

lemma setCurrentFile_fields [simp]:
  "files (setCurrentFile file uuid m) = files m"
  "db (setCurrentFile file uuid m) = db m"
  "bodies (setCurrentFile file uuid m) = bodies m"
  "debouncedSave (setCurrentFile file uuid m) = debouncedSave m"
  "toasts (setCurrentFile file uuid m) = toasts m"
  by (simp_all add: setCurrentFile_def)

lemma setCurrentFile_Some [simp]:
  "currentFile (setCurrentFile (Some f) uuid m) = Some f"
  "emitted (setCurrentFile (Some f) uuid m)
     = emitted m @ [(''currentFileChanged'', CurrentFile (Some f))]"
  by (simp_all add: setCurrentFile_def)

lemma setCurrentFile_current: "currentFile (setCurrentFile file uuid m) = file"
  by (auto simp add: setCurrentFile_def)

lemma setCurrentFile_saveTimer_mono: "saveTimer m \<Longrightarrow> saveTimer (setCurrentFile file uuid m)"
  by (simp add: setCurrentFile_def dispatch_saveTimer_mono)

lemma transaction_dispatch [simp]: "transaction (dispatch event d m) = transaction m"
  by (simp add: transaction_def)

lemma transaction_setCurrentFile [simp]:
  "transaction (setCurrentFile file uuid m) = transaction m"
  by (simp add: transaction_def)

lemma transaction_files_update [simp]: "transaction (m\<lparr>files := fs\<rparr>) = transaction m"
  by (simp add: transaction_def)

lemma transaction_Inr: "transaction m = Inr d \<Longrightarrow> \<not> closed d \<and> db m = Some d"
  by (auto simp add: transaction_def split: option.splits if_splits)

subsection \<open>Dispatch over an array that the callbacks leave alone\<close>









subsection \<open>The example managers\<close>

lemma example_manager_fields:
  "files example_manager = []"
  "currentFile example_manager = None"
  "forceUpdateTrigger example_manager = ''uuid-0''"
  "db example_manager = Some empty_idb"
  "emitted example_manager = []"
  "invoked example_manager = []"
  "console example_manager = []"
  "saveTimer example_manager = False"
  "bodies example_manager = [20 \<mapsto> DebouncedSave]"
  "debouncedSave example_manager = Some 20"
  by (simp_all add: example_manager_def setupAutoSave_def initDB_def new_MediaManager_def)







section \<open>MediaManager: content storage and import\<close>

lemma storeFileData_Inr:
  assumes "storeFileData re put fileId file m = Inr m1"
  shows "files m1 = files m"
    and "currentFile m1 = currentFile m"
    and "emitted m1 = emitted m"
    and "registry m1 = registry m"
    and "bodies m1 = bodies m"
    and "saveTimer m1 = saveTimer m"
    and "map_option files_store (db m1) = map_option files_store (db m)"
    and "\<exists>d. transaction m = Inr d"
  using assms
  by (auto simp add: storeFileData_def Let_def transaction_Inr
      split: option.splits sum.splits put_outcome.splits)

lemma storeFileData_Committed:
  assumes "storeFileData re Committed fileId file m = Inr m1"
  shows "getFileData None fileId m1
           = Inr \<lparr>blob_parts = content_f file, blob_type = type_f file\<rparr>"
proof -
  from assms obtain d where d: "transaction m = Inr d"
    and m1: "db m1 = Some (d\<lparr>fileData_store := (fileData_store d)(fileId \<mapsto>
           \<lparr>id_d = fileId, data_d = content_f file, type_d = type_f file,
            name_d = name_f file\<rparr>)\<rparr>)"
    by (auto simp add: storeFileData_def Let_def split: option.splits sum.splits)
  from d have "\<not> closed d"
    by (simp add: transaction_Inr)
  with m1 show ?thesis
    by (simp add: getFileData_def transaction_def)
qed

lemma storeFileData_AbortsAtCommit:
  "storeFileData re AbortsAtCommit fileId file m = Inr m1 \<Longrightarrow> m1 = m"
  by (auto simp add: storeFileData_def Let_def split: option.splits sum.splits)




lemma getFileData_db: "db m' = db m \<Longrightarrow> getFileData ge fileId m' = getFileData ge fileId m"
  by (simp add: getFileData_def transaction_def)

text \<open>What a successful \<open>addFile\<close> has done, in terms of the state after the store.\<close>

lemma addFile_Inr:
  assumes "addFile env file m = (Inr mf, m')"
  shows "\<exists>m1. storeFileData (readError env) (putOutcome env) (uuid_fileId env) file m = Inr m1
           \<and> m' = showToast ''success'' (dispatch ''filesChanged'' (Files (files m1 @ [mf]))
                    (setCurrentFile (Some mf) (uuid_trigger env)
                       (m1\<lparr>files := files m1 @ [mf]\<rparr>)))"
    and "id_m mf = uuid_fileId env"
proof -
  from assms obtain t where t: "thumbnail env = Inr t"
    by (cases "thumbnail env") (auto simp add: addFile_def addFile_catch_def Let_def)
  from assms t obtain m1 where
    m1: "storeFileData (readError env) (putOutcome env) (uuid_fileId env) file m = Inr m1"
    by (cases "storeFileData (readError env) (putOutcome env) (uuid_fileId env) file m")
       (auto simp add: addFile_def addFile_catch_def Let_def)
  from assms t m1 show "id_m mf = uuid_fileId env"
    by (auto simp add: addFile_def Let_def)
  from assms t m1 show "\<exists>m1. storeFileData (readError env) (putOutcome env) (uuid_fileId env)
             file m = Inr m1
           \<and> m' = showToast ''success'' (dispatch ''filesChanged'' (Files (files m1 @ [mf]))
                    (setCurrentFile (Some mf) (uuid_trigger env)
                       (m1\<lparr>files := files m1 @ [mf]\<rparr>)))"
    by (auto simp add: addFile_def Let_def)
qed

lemma addFile_success:
  assumes "addFile env file m = (Inr mf, m')"
  shows "files m' = files m @ [mf]"
    and "currentFile m' = Some mf"
    and "emitted m' = emitted m @ [(''currentFileChanged'', CurrentFile (Some mf)),
                                   (''filesChanged'', Files (files m @ [mf]))]"
    and "putOutcome env = Committed \<Longrightarrow>
           getFileData None (id_m mf) m'
             = Inr \<lparr>blob_parts = content_f file, blob_type = type_f file\<rparr>"
    and "putOutcome env = AbortsAtCommit \<Longrightarrow> db m' = db m"
    and "map_option files_store (db m') = map_option files_store (db m)"
proof -
  from addFile_Inr [OF assms] obtain m1 where
    m1: "storeFileData (readError env) (putOutcome env) (uuid_fileId env) file m = Inr m1"
    and m': "m' = showToast ''success'' (dispatch ''filesChanged'' (Files (files m1 @ [mf]))
               (setCurrentFile (Some mf) (uuid_trigger env) (m1\<lparr>files := files m1 @ [mf]\<rparr>)))"
    and mf: "id_m mf = uuid_fileId env"
    by blast
  note f = storeFileData_Inr [OF m1]
  have dbm': "db m' = db m1"
    by (simp add: m' showToast_def)
  show "files m' = files m @ [mf]"
    using f(1) by (simp add: m' showToast_def)
  show "currentFile m' = Some mf"
    by (simp add: m' showToast_def)
  show "emitted m' = emitted m @ [(''currentFileChanged'', CurrentFile (Some mf)),
                                  (''filesChanged'', Files (files m @ [mf]))]"
    using f(1,3) by (simp add: m' showToast_def)
  show "map_option files_store (db m') = map_option files_store (db m)"
    using f(7) by (simp add: dbm')
  show "getFileData None (id_m mf) m'
          = Inr \<lparr>blob_parts = content_f file, blob_type = type_f file\<rparr>"
    if "putOutcome env = Committed"
  proof -
    from that m1 have "storeFileData (readError env) Committed (uuid_fileId env) file m = Inr m1"
      by simp
    from storeFileData_Committed [OF this] getFileData_db [OF dbm'] show ?thesis
      by (simp add: mf)
  qed
  show "db m' = db m" if "putOutcome env = AbortsAtCommit"
  proof -
    from that m1
    have "storeFileData (readError env) AbortsAtCommit (uuid_fileId env) file m = Inr m1"
      by simp
    from storeFileData_AbortsAtCommit [OF this] show ?thesis
      by (simp add: dbm')
  qed
qed



lemma example_library_eval:
  "addFile example_env example_raw_file example_manager
     = (Inr example_media_file, example_library)"
  by (simp add: example_library_def addFile_def example_env_def example_raw_file_def
      storeFileData_def transaction_def example_manager_fields
      empty_idb_def getMediaType_def extension_def pop_def toLowerCase_def
      toLowerCase_char_def includes_list_def pdfExtensions_def example_media_file_def Let_def)

lemma example_library_fields:
  "files example_library = [example_media_file]"
  "currentFile example_library = Some example_media_file"
  "emitted example_library
     = [(''currentFileChanged'', CurrentFile (Some example_media_file)),
        (''filesChanged'', Files [example_media_file])]"
  using addFile_success(1,2,3) [OF example_library_eval]
  by (simp_all add: example_manager_fields)

lemma example_library_db:
  "db example_library = Some (empty_idb\<lparr>fileData_store := [''uuid-1'' \<mapsto>
       \<lparr>id_d = ''uuid-1'', data_d = [37, 80, 68, 70], type_d = ''application/pdf'',
        name_d = ''a.pdf''\<rparr>]\<rparr>)"
  by (simp add: example_library_def addFile_def example_env_def example_raw_file_def
      storeFileData_def transaction_def example_manager_fields
      empty_idb_def showToast_def Let_def)


lemma example_ids:
  "id_m example_media_file = ''uuid-1''"
  "content_f example_raw_file = [37, 80, 68, 70]"
  "type_f example_raw_file = ''application/pdf''"
  by (simp_all add: example_media_file_def example_raw_file_def)

lemma example_manager_callbacks:
  "bodies example_manager h \<noteq> Some (Callback f)"
  by (simp add: example_manager_fields)








section \<open>MediaManager: the current file\<close>

text \<open>
  C4, as the code has it. \<open>setCurrentFile\<close> sets the current pointer to its argument and
  emits \<open>currentFileChanged\<close> with it whenever the argument is a file (the file that is
  current already included) or the current file is not none; called with none while the
  current file is none, it does nothing at all.
\<close>

theorem setCurrentFile_notifies:
  "(file \<noteq> None \<or> currentFile m \<noteq> None \<longrightarrow>
      currentFile (setCurrentFile file uuid m) = file
      \<and> emitted (setCurrentFile file uuid m)
          = emitted m @ [(''currentFileChanged'', CurrentFile file)])
   \<and> (file = None \<and> currentFile m = None \<longrightarrow> setCurrentFile file uuid m = m)"
  by (auto simp add: setCurrentFile_def)

theorem setCurrentFile_notifies_witness:
  "currentFile example_library = Some example_media_file
   \<and> currentFile (setCurrentFile (Some example_media_file) ''uuid-9'' example_library)
       = Some example_media_file
   \<and> emitted (setCurrentFile (Some example_media_file) ''uuid-9'' example_library)
       = emitted example_library
           @ [(''currentFileChanged'', CurrentFile (Some example_media_file))]
   \<and> currentFile example_manager = None
   \<and> setCurrentFile None ''uuid-9'' example_manager = example_manager"
  using setCurrentFile_notifies [of "Some example_media_file" example_library "''uuid-9''"]
    setCurrentFile_notifies [of None example_manager "''uuid-9''"]
  by (simp add: example_library_fields example_manager_fields)

text \<open>
  Setting none on the fresh manager, whose current file is none: no notification is
  emitted (and no new \<open>forceUpdateTrigger\<close> is drawn).
\<close>

theorem setCurrentFile_none_to_none_silent:
  "currentFile example_manager = None
   \<and> emitted (setCurrentFile None ''uuid-9'' example_manager) = emitted example_manager
   \<and> forceUpdateTrigger (setCurrentFile None ''uuid-9'' example_manager) = ''uuid-0''"
  by (simp add: setCurrentFile_def example_manager_fields)

section \<open>MediaManager: removing a file\<close>

lemma removeFile_open:
  assumes tr: "transaction m = Inr d"
  shows "files (removeFile uuid de file m) = filter (\<lambda>f. id_m f \<noteq> id_m file) (files m)"
    and "currentFile (removeFile uuid de file m) =
           (if (case currentFile m of None \<Rightarrow> False | Some c \<Rightarrow> id_m c = id_m file)
            then (case filter (\<lambda>f. id_m f \<noteq> id_m file) (files m) of
                    [] \<Rightarrow> None | f # _ \<Rightarrow> Some f)
            else currentFile m)"
proof -
  show "files (removeFile uuid de file m) = filter (\<lambda>f. id_m f \<noteq> id_m file) (files m)"
    by (simp add: removeFile_def tr Let_def showToast_def split: option.split)
  show "currentFile (removeFile uuid de file m) =
           (if (case currentFile m of None \<Rightarrow> False | Some c \<Rightarrow> id_m c = id_m file)
            then (case filter (\<lambda>f. id_m f \<noteq> id_m file) (files m) of
                    [] \<Rightarrow> None | f # _ \<Rightarrow> Some f)
            else currentFile m)"
    by (cases "filter (\<lambda>f. id_m f \<noteq> id_m file) (files m)"; cases de)
       (simp_all add: removeFile_def tr Let_def showToast_def setCurrentFile_current
         split: option.split)
qed

text \<open>
  While the connection is open, \<open>removeFile\<close> keeps the invariant: a removed current
  file is replaced by the first remaining file, or by none.
\<close>

lemma removeFile_preserves_invariant:
  assumes tr: "transaction m = Inr d" and inv: "current_in_files m"
  shows "current_in_files (removeFile uuid de file m)"
proof (cases "case currentFile m of None \<Rightarrow> False | Some c \<Rightarrow> id_m c = id_m file")
  case True
  then show ?thesis
    by (simp add: current_in_files_def removeFile_open [OF tr] split: list.split)
next
  case False
  with inv show ?thesis
    by (auto simp add: current_in_files_def removeFile_open [OF tr] split: option.splits)
qed



text \<open>
  C2, where the code departs from it. When \<open>this.db.transaction\<close> throws (the connection
  is \<open>null\<close> or closed), \<open>removeFile\<close> has already filtered the list and then skips the
  update of the current file: a removed current file stays current though it is no longer
  in the list, and no notification is emitted.
\<close>

theorem removeFile_transaction_throws:
  assumes "transaction m = Inl e" and "currentFile m = Some c" and "id_m c = id_m file"
  shows "files (removeFile uuid de file m) = filter (\<lambda>f. id_m f \<noteq> id_m file) (files m)
    \<and> currentFile (removeFile uuid de file m) = Some c
    \<and> emitted (removeFile uuid de file m) = emitted m
    \<and> \<not> current_in_files (removeFile uuid de file m)"
  using assms
  by (simp add: removeFile_def Let_def showToast_def console_error_def current_in_files_def)

theorem removeFile_transaction_throws_witness:
  "transaction (dispose example_library) = Inl InvalidStateError
   \<and> current_in_files (dispose example_library)
   \<and> files (removeFile ''uuid-3'' None example_media_file (dispose example_library)) = []
   \<and> currentFile (removeFile ''uuid-3'' None example_media_file (dispose example_library))
       = Some example_media_file
   \<and> \<not> current_in_files
         (removeFile ''uuid-3'' None example_media_file (dispose example_library))"
proof -
  have tr: "transaction (dispose example_library) = Inl InvalidStateError"
    by (simp add: transaction_def dispose_def example_library_db)
  have cur: "currentFile (dispose example_library) = Some example_media_file"
    and fs: "files (dispose example_library) = [example_media_file]"
    by (simp_all add: dispose_def example_library_fields)
  show ?thesis
    using removeFile_transaction_throws [OF tr cur refl, of "''uuid-3''" None] tr cur fs
    by (simp add: current_in_files_def)
qed




section \<open>MediaManager: view progress\<close>

lemma findIndex_ge: "- 1 \<le> findIndex P xs"
  by (induction xs) (auto simp add: Let_def)

lemma findIndex_minus_one: "(findIndex P xs = - 1) = (find P xs = None)"
proof (induction xs)
  case Nil
  show ?case by simp
next
  case (Cons a xs)
  have "findIndex P xs + 1 \<noteq> - 1"
    using findIndex_ge [of P xs] by arith
  with Cons show ?case
    by (simp add: Let_def)
qed

lemma find_update_findIndex:
  assumes "find P xs = Some x" and "P y"
  shows "find P (xs[nat (findIndex P xs) := y]) = Some y"
  using assms
proof (induction xs)
  case Nil
  then show ?case by simp
next
  case (Cons a xs)
  show ?case
  proof (cases "P a")
    case True
    with Cons.prems show ?thesis by simp
  next
    case False
    with Cons.prems have fx: "find P xs = Some x" by simp
    then have "findIndex P xs \<noteq> - 1"
      by (simp add: findIndex_minus_one)
    with findIndex_ge [of P xs] have ge: "0 \<le> findIndex P xs" by arith
    then have "nat (findIndex P xs + 1) = Suc (nat (findIndex P xs))" by arith
    with False Cons.IH [OF fx Cons.prems(2)] \<open>findIndex P xs \<noteq> - 1\<close> show ?thesis
      by (simp add: Let_def)
  qed
qed

lemma nth_findIndex:
  assumes "find P xs = Some x"
  shows "xs ! nat (findIndex P xs) = x"
  using assms
proof (induction xs)
  case Nil
  then show ?case by simp
next
  case (Cons a xs)
  show ?case
  proof (cases "P a")
    case True
    with Cons.prems show ?thesis by simp
  next
    case False
    with Cons.prems have fx: "find P xs = Some x" by simp
    then have ne: "findIndex P xs \<noteq> - 1"
      by (simp add: findIndex_minus_one)
    with findIndex_ge [of P xs] have "0 \<le> findIndex P xs" by arith
    then have "nat (findIndex P xs + 1) = Suc (nat (findIndex P xs))" by arith
    with False Cons.IH [OF fx] ne show ?thesis
      by (simp add: Let_def)
  qed
qed

lemma find_Some_holds: "find P xs = Some x \<Longrightarrow> P x"
  by (induction xs) (auto split: if_splits)

lemma call_debouncedSave_fields [simp]:
  "files (call_debouncedSave m) = files m"
  "currentFile (call_debouncedSave m) = currentFile m"
  "db (call_debouncedSave m) = db m"
  by (simp_all add: call_debouncedSave_def split: option.split)

lemma getFileById_call_debouncedSave [simp]:
  "getFileById i (call_debouncedSave m) = getFileById i m"
  by (simp add: getFileById_def)

lemma getFileById_updateLastViewedTime:
  "getFileById (id_m f) (updateLastViewedTime f t m)
     = map_option (\<lambda>g. g\<lparr>lastViewedTime := t\<rparr>) (getFileById (id_m f) m)"
proof (cases "find (\<lambda>g. id_m g = id_m f) (files m)")
  case None
  then show ?thesis
    by (simp add: getFileById_def updateLastViewedTime_def findIndex_minus_one)
next
  case (Some x)
  then have ne: "findIndex (\<lambda>g. id_m g = id_m f) (files m) \<noteq> - 1"
    by (simp add: findIndex_minus_one)
  from Some have idx: "id_m x = id_m f"
    using find_Some_holds [of "\<lambda>g. id_m g = id_m f" "files m" x] by simp
  have "find (\<lambda>g. id_m g = id_m f)
          ((files m)[nat (findIndex (\<lambda>g. id_m g = id_m f) (files m))
             := x\<lparr>lastViewedTime := t\<rparr>]) = Some (x\<lparr>lastViewedTime := t\<rparr>)"
    using find_update_findIndex [OF Some, of "x\<lparr>lastViewedTime := t\<rparr>"] idx by simp
  with Some ne nth_findIndex [OF Some] show ?thesis
    by (simp add: getFileById_def updateLastViewedTime_def Let_def)
qed

lemma getFileById_updateLastViewedPage:
  "getFileById (id_m f) (updateLastViewedPage f p m)
     = map_option (\<lambda>g. g\<lparr>lastViewedPage := p\<rparr>) (getFileById (id_m f) m)"
proof (cases "find (\<lambda>g. id_m g = id_m f) (files m)")
  case None
  then show ?thesis
    by (simp add: getFileById_def updateLastViewedPage_def findIndex_minus_one)
next
  case (Some x)
  then have ne: "findIndex (\<lambda>g. id_m g = id_m f) (files m) \<noteq> - 1"
    by (simp add: findIndex_minus_one)
  from Some have idx: "id_m x = id_m f"
    using find_Some_holds [of "\<lambda>g. id_m g = id_m f" "files m" x] by simp
  have "find (\<lambda>g. id_m g = id_m f)
          ((files m)[nat (findIndex (\<lambda>g. id_m g = id_m f) (files m))
             := x\<lparr>lastViewedPage := p\<rparr>]) = Some (x\<lparr>lastViewedPage := p\<rparr>)"
    using find_update_findIndex [OF Some, of "x\<lparr>lastViewedPage := p\<rparr>"] idx by simp
  with Some ne nth_findIndex [OF Some] show ?thesis
    by (simp add: getFileById_def updateLastViewedPage_def Let_def)
qed

section \<open>VideoPlayer: seeking\<close>

lemma seek_loaded:
  assumes "videoElement vp = Some el" and "currentFile_v vp = Some f"
  shows "seek t (vp, m) =
           (if \<bar>currentTime vp - lastSavedPosition vp\<bar> > 1
            then (vp\<lparr>videoElement := Some (el\<lparr>currentTime_e := max 0 (min (duration vp) t)\<rparr>),
                     lastSavedPosition := currentTime vp\<rparr>,
                  updateLastViewedTime f (currentTime vp) m)
            else (vp\<lparr>videoElement := Some (el\<lparr>currentTime_e := max 0 (min (duration vp) t)\<rparr>)\<rparr>,
                  m))"
  using assms by (simp add: seek_def saveCurrentPosition_def Let_def)

lemma example_player_fields:
  "videoElement example_player = Some \<lparr>currentTime_e = 30\<rparr>"
  "currentFile_v example_player = Some example_video_file"
  "currentTime example_player = 30"
  "duration example_player = 120"
  "lastSavedPosition example_player = 25"
  by (simp_all add: example_player_def)

lemma example_video_lookup:
  "id_m example_video_file = ''uuid-v''"
  "getFileById ''uuid-v'' example_video_library = Some example_video_file"
  "lastViewedTime example_video_file = 25"
  by (simp_all add: example_video_library_def example_video_file_def getFileById_def)

text \<open>
  What \<open>saveCurrentPosition\<close> writes after a seek is the player's \<open>currentTime\<close>,
  which the seek has not changed: \<open>forward\<close> from a position more than one second
  past the last save persists that position, not the target ten seconds later.
\<close>

lemma forward_persists_position_before_seek:
  assumes "videoElement vp = Some el" and "currentFile_v vp = Some f"
    and "\<bar>currentTime vp - lastSavedPosition vp\<bar> > 1"
  shows "getFileById (id_m f) (snd (forward (vp, m)))
           = map_option (\<lambda>g. g\<lparr>lastViewedTime := currentTime vp\<rparr>) (getFileById (id_m f) m)"
  using assms(3) getFileById_updateLastViewedTime [of f "currentTime vp" m]
  by (simp add: forward_def seek_loaded [OF assms(1,2)])

text \<open>After the seek the \<open>timeupdate\<close> event brings the player's copy up to date.\<close>

lemma onTimeUpdate_after_seek:
  assumes "videoElement vp = Some el" and "currentFile_v vp = Some f"
    and "\<not> isSeeking vp"
  shows "currentTime (onTimeUpdate (fst (seek t (vp, m)))) = max 0 (min (duration vp) t)"
  using assms(3) by (simp add: onTimeUpdate_def seek_loaded [OF assms(1,2)])


text \<open>
  \<open>seek\<close> on a loaded video sets the playback position of the element to the requested
  time clamped to \<open>[0, duration]\<close>.
\<close>

lemma seek_clamps:
  assumes "videoElement vp = Some el" and "currentFile_v vp = Some f"
  shows "videoElement (fst (seek t (vp, m)))
           = Some (el\<lparr>currentTime_e := max 0 (min (duration vp) t)\<rparr>)"
    and "0 \<le> duration vp \<Longrightarrow>
           0 \<le> max 0 (min (duration vp) t) \<and> max 0 (min (duration vp) t) \<le> duration vp"
  by (simp_all add: seek_loaded [OF assms])

lemma seek_clamps_examples:
  "videoElement (fst (seek (- 5) (example_player, example_video_library)))
     = Some \<lparr>currentTime_e = 0\<rparr>"
  "videoElement (fst (seek 500 (example_player, example_video_library)))
     = Some \<lparr>currentTime_e = 120\<rparr>"
  using seek_clamps(1) [of example_player "\<lparr>currentTime_e = 30\<rparr>" example_video_file "- 5"
      example_video_library]
    seek_clamps(1) [of example_player "\<lparr>currentTime_e = 30\<rparr>" example_video_file 500
      example_video_library]
  by (simp_all add: example_player_fields)

text \<open>
  On the slider path the input handler has set the player's \<open>currentTime\<close> to the
  target before \<open>onSliderChange\<close> seeks, and there the position persisted is the
  target.
\<close>

lemma slider_seek_persists_target:
  "currentTime (onSliderInput 50 example_player) = 60"
  "videoElement (fst (onSliderChange 50
     (onSliderInput 50 example_player, example_video_library)))
     = Some \<lparr>currentTime_e = 60\<rparr>"
  "map_option lastViewedTime (getFileById ''uuid-v'' (snd (onSliderChange 50
     (onSliderInput 50 example_player, example_video_library)))) = Some 60"
proof -
  have sl: "onSliderInput 50 example_player = example_player\<lparr>currentTime := 60\<rparr>"
    by (simp add: onSliderInput_def example_player_fields)
  have ch: "onSliderChange 50 (example_player\<lparr>currentTime := 60\<rparr>, example_video_library)
      = seek 60 (example_player\<lparr>currentTime := 60\<rparr>, example_video_library)"
    by (simp add: onSliderChange_def example_player_fields)
  have sk: "seek 60 (example_player\<lparr>currentTime := 60\<rparr>, example_video_library)
      = (example_player\<lparr>currentTime := 60,
           videoElement := Some \<lparr>currentTime_e = 60\<rparr>, lastSavedPosition := 60\<rparr>,
         updateLastViewedTime example_video_file 60 example_video_library)"
    using seek_loaded [of "example_player\<lparr>currentTime := 60\<rparr>" "\<lparr>currentTime_e = 30\<rparr>"
        example_video_file 60 example_video_library]
    by (simp add: example_player_fields)
  show "currentTime (onSliderInput 50 example_player) = 60"
    by (simp add: sl)
  show "videoElement (fst (onSliderChange 50
     (onSliderInput 50 example_player, example_video_library)))
     = Some \<lparr>currentTime_e = 60\<rparr>"
    by (simp add: sl ch sk)
  show "map_option lastViewedTime (getFileById ''uuid-v'' (snd (onSliderChange 50
     (onSliderInput 50 example_player, example_video_library)))) = Some 60"
    using getFileById_updateLastViewedTime [of example_video_file 60 example_video_library]
    by (simp add: sl ch sk example_video_lookup)
qed

text \<open>
  C6, where the code departs from it. On a loaded video \<open>seek\<close> moves the element to
  the clamped target and leaves the player's own \<open>currentTime\<close> as it was; the
  \<open>saveCurrentPosition\<close> it then calls persists that \<open>currentTime\<close>, the position
  from before the seek and not the clamped target, when it is more than one second away
  from the last saved position, and persists nothing otherwise.
\<close>

theorem seek_persists_tracked_time:
  assumes "videoElement vp = Some el" and "currentFile_v vp = Some f"
  shows "videoElement (fst (seek t (vp, m)))
           = Some (el\<lparr>currentTime_e := max 0 (min (duration vp) t)\<rparr>)
    \<and> currentTime (fst (seek t (vp, m))) = currentTime vp
    \<and> snd (seek t (vp, m))
        = (if \<bar>currentTime vp - lastSavedPosition vp\<bar> > 1
           then updateLastViewedTime f (currentTime vp) m else m)
    \<and> (\<bar>currentTime vp - lastSavedPosition vp\<bar> > 1 \<longrightarrow>
          getFileById (id_m f) (snd (seek t (vp, m)))
            = map_option (\<lambda>g. g\<lparr>lastViewedTime := currentTime vp\<rparr>)
                (getFileById (id_m f) m))"
  using getFileById_updateLastViewedTime [of f "currentTime vp" m]
  by (simp add: seek_loaded [OF assms])

theorem seek_persists_tracked_time_witness:
  "map_option currentTime_e
     (videoElement (fst (seek 50 (example_player, example_video_library)))) = Some 50
   \<and> currentTime (fst (seek 50 (example_player, example_video_library))) = 30
   \<and> map_option lastViewedTime
       (getFileById ''uuid-v'' (snd (seek 50 (example_player, example_video_library))))
     = Some 30"
  using seek_persists_tracked_time [of example_player "\<lparr>currentTime_e = 30\<rparr>"
      example_video_file 50 example_video_library]
  by (auto simp add: example_player_fields example_video_lookup)

section \<open>PDFViewer: page navigation and rendering\<close>

lemma renderPage_busy: "isRendering v \<Longrightarrow> renderPage v = v"
  by (simp add: renderPage_def)

lemma renderPage_currentPage [simp]: "currentPage (renderPage v) = currentPage v"
  by (simp add: renderPage_def cancel_def Let_def split: option.split)

text \<open>
  \<open>goToPage\<close> on a loaded document sets the current page to the page number clamped to
  \<open>[1, totalPages]\<close>, and does nothing when that is the current page already.
\<close>

lemma goToPage_clamps:
  "pdfDocument v \<noteq> None \<Longrightarrow> currentPage (goToPage n v) = max 1 (min n (totalPages v))"
  by (cases "pdfDocument v") (simp_all add: goToPage_def updatePageInfo_def Let_def)

lemma goToPage_noop: "max 1 (min n (totalPages v)) = currentPage v \<Longrightarrow> goToPage n v = v"
  by (simp add: goToPage_def Let_def)

lemma goToPage_in_range:
  "pdfDocument v \<noteq> None \<Longrightarrow> 1 \<le> totalPages v \<Longrightarrow>
   1 \<le> currentPage (goToPage n v) \<and> currentPage (goToPage n v) \<le> totalPages v"
  by (simp add: goToPage_clamps)

text \<open>
  With no render in flight, \<open>goToPage\<close> followed by the completion of the render it
  starts draws the clamped page and persists it as \<open>lastViewedPage\<close>.
\<close>

lemma goToPage_idle_render_persists_page:
  assumes "pdfDocument v \<noteq> None" and "\<not> isRendering v" and "renderTask v = None"
    and "nextTaskId v \<notin> set (cancelledTasks v)" and "currentFile_p v = Some f"
    and "max 1 (min n (totalPages v)) \<noteq> currentPage v"
  shows "canvasPage (fst (pdf_run [GoToPage n, GetPageResolved, RenderResolved] (v, m)))
           = Some (max 1 (min n (totalPages v)))"
    and "getFileById (id_m f)
           (snd (pdf_run [GoToPage n, GetPageResolved, RenderResolved] (v, m)))
           = map_option (\<lambda>g. g\<lparr>lastViewedPage := max 1 (min n (totalPages v))\<rparr>)
               (getFileById (id_m f) m)"
proof -
  let ?c = "max 1 (min n (totalPages v))"
  have g: "goToPage n v
             = v\<lparr>currentPage := ?c, pageNumText := ?c, isRendering := True,
                 suspended := Some (AwaitGetPage ?c)\<rparr>"
  proof -
    from assms(1) obtain doc where "pdfDocument v = Some doc"
      by blast
    with assms(2,3,6) show ?thesis
      by (simp add: goToPage_def renderPage_def updatePageInfo_def Let_def)
  qed
  have r: "getPage_resolved (goToPage n v)
             = v\<lparr>currentPage := ?c, pageNumText := ?c, isRendering := True,
                 renderTask := Some (nextTaskId v), nextTaskId := nextTaskId v + 1,
                 suspended := Some (AwaitRender ?c (nextTaskId v))\<rparr>"
    by (simp add: g getPage_resolved_def Let_def)
  have run: "pdf_run [GoToPage n, GetPageResolved, RenderResolved] (v, m)
               = render_resolved (getPage_resolved (goToPage n v), m)"
    by (simp add: pdf_run_def)
  show "canvasPage (fst (pdf_run [GoToPage n, GetPageResolved, RenderResolved] (v, m)))
          = Some ?c"
    using assms(4,5) by (simp add: run r render_resolved_def Let_def)
  show "getFileById (id_m f)
          (snd (pdf_run [GoToPage n, GetPageResolved, RenderResolved] (v, m)))
          = map_option (\<lambda>g. g\<lparr>lastViewedPage := ?c\<rparr>) (getFileById (id_m f) m)"
    using assms(4,5) getFileById_updateLastViewedPage [of f ?c m]
    by (simp add: run r render_resolved_def Let_def)
qed

lemma example_viewer_goToPage_2:
  "goToPage 2 example_viewer =
     \<lparr>pdfDocument = Some \<lparr>numPages = 3\<rparr>, currentPage = 2, totalPages = 3,
      isRendering = True, renderTask = None, currentFile_p = Some example_media_file,
      pageNumText = 2, canvasPage = Some 1, suspended = Some (AwaitGetPage 2),
      cancelledTasks = [], nextTaskId = 1, console_p = []\<rparr>"
  by (simp add: goToPage_def renderPage_def updatePageInfo_def example_viewer_def Let_def)

lemma example_viewer_rendering_2:
  "getPage_resolved (goToPage 2 example_viewer) =
     \<lparr>pdfDocument = Some \<lparr>numPages = 3\<rparr>, currentPage = 2, totalPages = 3,
      isRendering = True, renderTask = Some 1, currentFile_p = Some example_media_file,
      pageNumText = 2, canvasPage = Some 1, suspended = Some (AwaitRender 2 1),
      cancelledTasks = [], nextTaskId = 2, console_p = []\<rparr>"
  by (simp add: example_viewer_goToPage_2 getPage_resolved_def Let_def)

lemma example_library_lookup:
  "getFileById ''uuid-1'' example_library = Some example_media_file"
  "lastViewedPage example_media_file = 1"
  by (simp_all add: getFileById_def example_library_fields example_media_file_def)

text \<open>
  The scenario of the specification, one navigation at a time: on the three pages of the
  example file \<open>goToPage(2)\<close> renders and persists page 2, and \<open>goToPage(99)\<close> is
  clamped to page 3.
\<close>

lemma goToPage_scenario:
  "canvasPage (fst (pdf_run [GoToPage 2, GetPageResolved, RenderResolved]
     (example_viewer, example_library))) = Some 2"
  "map_option lastViewedPage (getFileById ''uuid-1''
     (snd (pdf_run [GoToPage 2, GetPageResolved, RenderResolved]
       (example_viewer, example_library)))) = Some 2"
  "currentPage (goToPage 99 example_viewer) = 3"
  using goToPage_idle_render_persists_page [of example_viewer example_media_file 2
      example_library]
    goToPage_clamps [of example_viewer 99]
  by (simp_all add: example_viewer_def example_ids example_library_lookup)

text \<open>
  A render whose task was cancelled (by \<open>clearPDF\<close>) ends in the \<open>catch\<close> block
  without a log entry, draws nothing and persists nothing.
\<close>

lemma cancelled_render_is_silent:
  assumes "suspended v = Some (AwaitRender p t)" and "t \<in> set (cancelledTasks v)"
  shows "console_p (fst (render_resolved (v, m))) = console_p v"
    and "canvasPage (fst (render_resolved (v, m))) = canvasPage v"
    and "snd (render_resolved (v, m)) = m"
    and "isRendering (fst (render_resolved (v, m))) = False"
  using assms by (simp_all add: render_resolved_def renderPage_catch_def Let_def)

lemma clearPDF_cancels_render_task:
  "renderTask v = Some t \<Longrightarrow> t \<in> set (cancelledTasks (clearPDF v))"
  by (simp add: clearPDF_def updatePageInfo_def cancel_def Let_def)

text \<open>
  C8, where the code departs from it. A \<open>goToPage\<close> that arrives while a render is in
  flight only moves \<open>currentPage\<close> and the page label: \<open>renderPage\<close> returns at once
  because \<open>isRendering\<close> is set, so the render in flight is not cancelled (it goes on with
  the page it was started for) and no render of the newly requested page is started.
\<close>

theorem goToPage_while_rendering_is_dropped:
  assumes "pdfDocument v \<noteq> None" and "isRendering v"
    and "max 1 (min n (totalPages v)) \<noteq> currentPage v"
  shows "goToPage n v
           = v\<lparr>currentPage := max 1 (min n (totalPages v)),
               pageNumText := max 1 (min n (totalPages v))\<rparr>
    \<and> suspended (goToPage n v) = suspended v
    \<and> cancelledTasks (goToPage n v) = cancelledTasks v
    \<and> renderTask (goToPage n v) = renderTask v"
proof -
  from assms(1) obtain doc where "pdfDocument v = Some doc"
    by blast
  with assms(2,3) show ?thesis
    by (simp add: goToPage_def renderPage_busy updatePageInfo_def Let_def)
qed

theorem goToPage_while_rendering_is_dropped_witness:
  "isRendering (goToPage 2 example_viewer)
   \<and> suspended (goToPage 3 (goToPage 2 example_viewer)) = Some (AwaitGetPage 2)
   \<and> cancelledTasks (goToPage 3 (goToPage 2 example_viewer)) = []
   \<and> currentPage (fst (pdf_run [GoToPage 2, GoToPage 3, GetPageResolved, RenderResolved]
        (example_viewer, example_library))) = 3
   \<and> canvasPage (fst (pdf_run [GoToPage 2, GoToPage 3, GetPageResolved, RenderResolved]
        (example_viewer, example_library))) = Some 2
   \<and> suspended (fst (pdf_run [GoToPage 2, GoToPage 3, GetPageResolved, RenderResolved]
        (example_viewer, example_library))) = None
   \<and> isRendering (fst (pdf_run [GoToPage 2, GoToPage 3, GetPageResolved, RenderResolved]
        (example_viewer, example_library))) = False"
proof -
  have run: "pdf_run [GoToPage 2, GoToPage 3, GetPageResolved, RenderResolved]
               (example_viewer, example_library)
             = render_resolved
                 (getPage_resolved (goToPage 3 (goToPage 2 example_viewer)), example_library)"
    by (simp add: pdf_run_def)
  show ?thesis
    using goToPage_while_rendering_is_dropped [of "goToPage 2 example_viewer" 3]
    by (simp add: run example_viewer_goToPage_2 getPage_resolved_def render_resolved_def
        Let_def)
qed

text \<open>
  C7, where the code departs from it. When \<open>goToPage\<close> arrives while the render of page
  \<open>p\<close> is being drawn, that render completes with page \<open>p\<close> on the canvas, and what it
  persists as \<open>lastViewedPage\<close> is \<open>this.currentPage\<close> at that moment, the newly
  requested page and not the rendered one.
\<close>

theorem render_persists_page_not_rendered:
  assumes "pdfDocument v \<noteq> None" and "isRendering v"
    and "suspended v = Some (AwaitRender p t)" and "t \<notin> set (cancelledTasks v)"
    and "currentFile_p v = Some f"
    and "max 1 (min n (totalPages v)) \<noteq> currentPage v"
  shows "canvasPage (fst (pdf_run [GoToPage n, RenderResolved] (v, m))) = Some p
    \<and> getFileById (id_m f) (snd (pdf_run [GoToPage n, RenderResolved] (v, m)))
        = map_option (\<lambda>g. g\<lparr>lastViewedPage := max 1 (min n (totalPages v))\<rparr>)
            (getFileById (id_m f) m)"
proof -
  let ?c = "max 1 (min n (totalPages v))"
  have g: "goToPage n v = v\<lparr>currentPage := ?c, pageNumText := ?c\<rparr>"
  proof -
    from assms(1) obtain doc where "pdfDocument v = Some doc"
      by blast
    with assms(2,6) show ?thesis
      by (simp add: goToPage_def renderPage_busy updatePageInfo_def Let_def)
  qed
  have run: "pdf_run [GoToPage n, RenderResolved] (v, m) = render_resolved (goToPage n v, m)"
    by (simp add: pdf_run_def)
  show ?thesis
    using assms(3,4,5) getFileById_updateLastViewedPage [of f ?c m]
    by (simp add: run g render_resolved_def Let_def)
qed

theorem render_persists_page_not_rendered_witness:
  "suspended (fst (pdf_run [GoToPage 2, GetPageResolved] (example_viewer, example_library)))
     = Some (AwaitRender 2 1)
   \<and> canvasPage (fst (pdf_run [GoToPage 3, RenderResolved]
        (pdf_run [GoToPage 2, GetPageResolved] (example_viewer, example_library)))) = Some 2
   \<and> map_option lastViewedPage (getFileById ''uuid-1'' (snd (pdf_run [GoToPage 3, RenderResolved]
        (pdf_run [GoToPage 2, GetPageResolved] (example_viewer, example_library))))) = Some 3"
proof -
  have run: "pdf_run [GoToPage 2, GetPageResolved] (example_viewer, example_library)
               = (getPage_resolved (goToPage 2 example_viewer), example_library)"
    by (simp add: pdf_run_def)
  show ?thesis
    using render_persists_page_not_rendered [of "getPage_resolved (goToPage 2 example_viewer)"
        2 1 example_media_file 3 example_library]
    by (simp add: run example_viewer_rendering_2 example_ids example_library_lookup)
qed
end
